theory Spec2Isabelle
  imports Main
begin

section \<open>The LM Studio provider of Timesketch\<close>

text \<open>
  A shallow embedding of \<^verbatim>\<open>timesketch/lib/llms/providers/lmstudio.py\<close>: the class
  \<^verbatim>\<open>LMStudioProvider\<close> (its constructor, \<^verbatim>\<open>_headers\<close> and \<^verbatim>\<open>generate\<close>) and the
  registration of the class when the module is loaded.
\<close>

subsection \<open>Python values\<close>

text \<open>
  The exceptions the module raises, re-raises or catches.  Every value of the type is
  an instance of Python's class \<^verbatim>\<open>Exception\<close>, which is what the three handlers of the
  module (\<^verbatim>\<open>except Exception\<close>) catch.  \<^verbatim>\<open>ValueError\<close> carries its message and its
  \<^verbatim>\<open>__cause__\<close> (set by \<^verbatim>\<open>raise ... from e\<close>); \<^verbatim>\<open>HTTPError\<close> carries the status code
  of the response it was raised for; \<^verbatim>\<open>AttributeError\<close> carries the name of the attribute
  that was not found.
\<close>

datatype exn =
    ValueError string "exn option"
  | AttributeError string
  | HTTPError int
  | JSONDecodeError string
  | ConnectionError string
  | Timeout string
  | OtherException string

text \<open>The values a JSON parser produces and a JSON schema is made of.\<close>

datatype json_value =
    JNull
  | JBool bool
  | JInt int
  | JStr string
  | JList "json_value list"
  | JDict "(string \<times> json_value) list"

text \<open>
  The configuration is a \<^verbatim>\<open>dict\<close> whose three recognised keys hold strings;
  \<^verbatim>\<open>config.get(k)\<close> is \<^verbatim>\<open>None\<close> for a key that is not there.
\<close>

type_synonym config = "string \<rightharpoonup> string"

text \<open>
  Truth value testing, as \<^verbatim>\<open>if x\<close> and \<^verbatim>\<open>if not x\<close> do it: \<^verbatim>\<open>None\<close> is false, a string
  is true when it is not empty, a \<^verbatim>\<open>dict\<close> is true when it has an entry.
\<close>

fun truthy_str :: "string option \<Rightarrow> bool" where
  "truthy_str None = False"
| "truthy_str (Some s) = (s \<noteq> [])"

fun truthy_dict :: "(string \<times> json_value) list option \<Rightarrow> bool" where
  "truthy_dict None = False"
| "truthy_dict (Some d) = (d \<noteq> [])"

text \<open>\<^verbatim>\<open>str.rstrip(chars)\<close>: the string without its trailing characters that are in \<^verbatim>\<open>chars\<close>.\<close>

definition rstrip :: "string \<Rightarrow> string \<Rightarrow> string" where
  "rstrip s chars = rev (dropWhile (\<lambda>c. c \<in> set chars) (rev s))"

subsection \<open>The provider object\<close>

record LMStudioProvider =
  config :: config
  server_url :: "string option"
  model :: "string option"
  api_key :: "string option"

text \<open>
  Modelled from the spec: the constructor of the base class \<^verbatim>\<open>interface.LLMProvider\<close>,
  which is not part of the file.  The adapter is "constructible from a configuration
  mapping": the base constructor keeps the mapping it is given as \<^verbatim>\<open>self.config\<close>.
\<close>

definition LLMProvider_init :: "config \<Rightarrow> config" where
  "LLMProvider_init cfg = cfg"

text \<open>\<^verbatim>\<open>LMStudioProvider.__init__\<close>: the three fields are read, then the URL is checked.\<close>

definition init :: "config \<Rightarrow> exn + LMStudioProvider" where
  "init cfg =
     (let c = LLMProvider_init cfg;
          self = \<lparr>config = c, server_url = c ''server_url'', model = c ''model'',
                  api_key = c ''api_key''\<rparr>
      in if \<not> truthy_str (server_url self)
         then Inl (ValueError ''LMStudio provider requires 'server_url' in config'' None)
         else Inr self)"

subsection \<open>The HTTP exchange\<close>

text \<open>
  The call \<^verbatim>\<open>requests.post(url, json=payload, headers=..., timeout=60)\<close>: the method is
  POST, the other fields are the arguments of the call.  The two dictionaries map
  strings to strings.
\<close>

record request =
  http_method :: string
  url :: string
  json :: "string \<rightharpoonup> string"
  headers :: "string \<rightharpoonup> string"
  timeout :: nat

text \<open>The response object: \<^verbatim>\<open>resp.status_code\<close> and \<^verbatim>\<open>resp.text\<close>.\<close>

record response =
  status_code :: int
  resp_text :: string

text \<open>
  What lies outside the module and decides how a call goes: \<^verbatim>\<open>requests.post\<close> with the
  network and the server behind it, which returns a response or raises (no connection, a
  timeout), and the JSON parser that \<^verbatim>\<open>resp.json()\<close> runs on the body, which returns a
  value or raises.
\<close>

record env =
  post :: "request \<Rightarrow> exn + response"
  json_loads :: "string \<Rightarrow> exn + json_value"

text \<open>
  \<^verbatim>\<open>Response.raise_for_status\<close> of the \<^verbatim>\<open>requests\<close> library: it raises \<^verbatim>\<open>HTTPError\<close> for a
  client error (\<^verbatim>\<open>400 <= status_code < 500\<close>) and for a server error
  (\<^verbatim>\<open>500 <= status_code < 600\<close>), and returns \<^verbatim>\<open>None\<close> for every other status code.
\<close>

definition raise_for_status :: "response \<Rightarrow> exn + unit" where
  "raise_for_status resp =
     (if 400 \<le> status_code resp \<and> status_code resp < 500 then Inl (HTTPError (status_code resp))
      else if 500 \<le> status_code resp \<and> status_code resp < 600
        then Inl (HTTPError (status_code resp))
      else Inr ())"

text \<open>\<^verbatim>\<open>logger.exception(fmt, e)\<close>: an entry with the format string and the exception.\<close>

datatype log_entry = LogException string exn

text \<open>\<^verbatim>\<open>LMStudioProvider._headers\<close>.\<close>

definition provider_headers :: "LMStudioProvider \<Rightarrow> (string \<rightharpoonup> string)" where
  "provider_headers self =
     (let headers = [''Content-Type'' \<mapsto> ''application/json'']
      in (case api_key self of
            None \<Rightarrow> headers
          | Some k \<Rightarrow>
              if truthy_str (Some k) then headers(''Authorization'' \<mapsto> ''Bearer '' @ k)
              else headers))"

text \<open>
  What a call of \<^verbatim>\<open>generate\<close> leaves behind: the object after the call, the requests it
  handed to \<^verbatim>\<open>requests.post\<close>, the log entries it wrote, and the value it returned
  (\<open>Inr\<close>) or the exception it raised (\<open>Inl\<close>).  The returned value is a Python value:
  the body text is the string \<open>JStr\<close>, a parsed body is whatever the parser produced.
\<close>

record outcome =
  self_after :: LMStudioProvider
  posts :: "request list"
  logged :: "log_entry list"
  result :: "exn + json_value"

text \<open>
  \<^verbatim>\<open>LMStudioProvider.generate\<close>.  The first case is the attribute lookup
  \<^verbatim>\<open>self._server_url.rstrip\<close> on \<^verbatim>\<open>None\<close>, which no object built by the constructor
  reaches.  An exception of \<^verbatim>\<open>requests.post\<close> itself leaves the function before
  the \<^verbatim>\<open>try\<close> block, so nothing is logged for it.
\<close>

definition generate ::
  "env \<Rightarrow> LMStudioProvider \<Rightarrow> string \<Rightarrow> (string \<times> json_value) list option \<Rightarrow> outcome" where
  "generate e self prompt response_schema =
     (case server_url self of
        None \<Rightarrow>
          \<lparr>self_after = self, posts = [], logged = [],
           result = Inl (AttributeError ''rstrip'')\<rparr>
      | Some base \<Rightarrow>
         (let u = rstrip base ''/'' @ ''/generate'';
              payload = [''prompt'' \<mapsto> prompt];
              payload = (case model self of
                           None \<Rightarrow> payload
                         | Some m \<Rightarrow>
                             if truthy_str (Some m) then payload(''model'' \<mapsto> m) else payload);
              req = \<lparr>http_method = ''POST'', url = u, json = payload,
                     headers = provider_headers self, timeout = 60\<rparr>
          in (case post e req of
               Inl ex \<Rightarrow> \<lparr>self_after = self, posts = [req], logged = [], result = Inl ex\<rparr>
             | Inr resp \<Rightarrow>
                 (case raise_for_status resp of
                    Inl ex \<Rightarrow>
                      \<lparr>self_after = self, posts = [req],
                       logged = [LogException ''LM Studio request failed: %s'' ex],
                       result = Inl ex\<rparr>
                  | Inr _ \<Rightarrow>
                      if truthy_dict response_schema
                      then (case json_loads e (resp_text resp) of
                              Inr v \<Rightarrow>
                                \<lparr>self_after = self, posts = [req], logged = [], result = Inr v\<rparr>
                            | Inl ex \<Rightarrow>
                                \<lparr>self_after = self, posts = [req], logged = [],
                                 result = Inl (ValueError
                                   ''Failed to parse JSON response from LM Studio'' (Some ex))\<rparr>)
                      else \<lparr>self_after = self, posts = [req], logged = [],
                            result = Inr (JStr (resp_text resp))\<rparr>))))"

text \<open>
  A client that keeps one object and calls \<^verbatim>\<open>generate\<close> on it again and again, each
  time with its own prompt and schema and against the outside world of that moment.
\<close>

fun generate_all ::
  "LMStudioProvider \<Rightarrow> (env \<times> string \<times> (string \<times> json_value) list option) list \<Rightarrow>
     LMStudioProvider \<times> outcome list" where
  "generate_all self [] = (self, [])"
| "generate_all self ((e, prompt, response_schema) # calls) =
     (let out = generate e self prompt response_schema;
          (self', outs) = generate_all (self_after out) calls
      in (self', out # outs))"

subsection \<open>Registration when the module is loaded\<close>

text \<open>
  The last statement of the module.  \<^verbatim>\<open>manager.LLMManager.register_provider\<close> is not part
  of the file: it is a parameter, a function that takes the name of the class and the
  registry and gives the registry it leaves behind together with the exception it
  raised, if any.  The statement ends normally or with an exception of its own.
\<close>

definition NAME :: string where
  "NAME = ''lmstudio''"

datatype completion = Completed | Raised exn

definition register_on_import ::
  "(string \<Rightarrow> 'r \<Rightarrow> exn option \<times> 'r) \<Rightarrow> 'r \<Rightarrow> completion \<times> 'r" where
  "register_on_import register_provider registry =
     (case register_provider NAME registry of
        (None, registry') \<Rightarrow> (Completed, registry')
      | (Some ex, registry') \<Rightarrow> (Completed, registry'))"

subsection \<open>Simulated servers\<close>

text \<open>
  A server that answers every request with the same response, and a parser that knows
  the body \<^verbatim>\<open>{"a": 1}\<close> and rejects every other body.
\<close>

definition simulated_server :: "response \<Rightarrow> (string \<Rightarrow> exn + json_value) \<Rightarrow> env" where
  "simulated_server resp loads = \<lparr>post = (\<lambda>req. Inr resp), json_loads = loads\<rparr>"

definition body_a1 :: string where
  "body_a1 = [CHR ''{'', CHR 0x22, CHR ''a'', CHR 0x22, CHR '':'', CHR '' '', CHR ''1'', CHR ''}'']"

definition loads_a1 :: "string \<Rightarrow> exn + json_value" where
  "loads_a1 s =
     (if s = body_a1 then Inr (JDict [(''a'', JInt 1)])
      else Inl (JSONDecodeError ''Expecting value''))"

definition hello_server :: env where
  "hello_server = simulated_server \<lparr>status_code = 200, resp_text = ''hello''\<rparr> loads_a1"

definition local_config :: config where
  "local_config = [''server_url'' \<mapsto> ''http://localhost:1234/'']"

definition local_provider :: LMStudioProvider where
  "local_provider =
     \<lparr>config = local_config, server_url = Some ''http://localhost:1234/'', model = None,
      api_key = None\<rparr>"

definition keyed_config :: config where
  "keyed_config =
     [''server_url'' \<mapsto> ''http://localhost:1234'', ''model'' \<mapsto> ''m1'',
      ''api_key'' \<mapsto> ''secret'']"

definition keyed_provider :: LMStudioProvider where
  "keyed_provider =
     \<lparr>config = keyed_config, server_url = Some ''http://localhost:1234'', model = Some ''m1'',
      api_key = Some ''secret''\<rparr>"

definition blank_config :: config where
  "blank_config =
     [''server_url'' \<mapsto> ''http://localhost:1234/'', ''model'' \<mapsto> [],
      ''api_key'' \<mapsto> []]"

definition blank_provider :: LMStudioProvider where
  "blank_provider =
     \<lparr>config = blank_config, server_url = Some ''http://localhost:1234/'', model = Some [],
      api_key = Some []\<rparr>"

text \<open>The requests the example objects send for the prompt \<^verbatim>\<open>hi\<close>.\<close>

definition local_request :: request where
  "local_request =
     \<lparr>http_method = ''POST'', url = ''http://localhost:1234/generate'',
      json = [''prompt'' \<mapsto> ''hi''],
      headers = [''Content-Type'' \<mapsto> ''application/json''], timeout = 60\<rparr>"

definition keyed_request :: request where
  "keyed_request =
     \<lparr>http_method = ''POST'', url = ''http://localhost:1234/generate'',
      json = [''prompt'' \<mapsto> ''hi'', ''model'' \<mapsto> ''m1''],
      headers = [''Content-Type'' \<mapsto> ''application/json'',
                 ''Authorization'' \<mapsto> ''Bearer secret''], timeout = 60\<rparr>"

subsection \<open>Facts about the operations\<close>

text \<open>
  \<^verbatim>\<open>rstrip\<close> with a single character takes a run of that character off the end, and
  what is left does not end with it.
\<close>

lemma rstrip_split:
  "s = rstrip s [c] @ replicate (length s - length (rstrip s [c])) c"
proof -
  let ?P = "\<lambda>x. x \<in> set [c]"
  have tw: "takeWhile ?P (rev s) = replicate (length (takeWhile ?P (rev s))) c"
    by (rule replicate_length_same [symmetric]) (auto dest: set_takeWhileD)
  have "rev s = takeWhile ?P (rev s) @ dropWhile ?P (rev s)"
    by simp
  then have "s = rev (dropWhile ?P (rev s)) @ rev (takeWhile ?P (rev s))"
    by (metis rev_append rev_rev_ident)
  moreover have "length (takeWhile ?P (rev s)) = length s - length (rstrip s [c])"
    unfolding rstrip_def
    by (metis (no_types, lifting) add_diff_cancel_right' length_append length_rev takeWhile_dropWhile_id)
  ultimately show ?thesis
    using tw unfolding rstrip_def by (metis rev_replicate)
qed

lemma rstrip_last:
  "rstrip s cs = [] \<or> last (rstrip s cs) \<notin> set cs"
  unfolding rstrip_def
  by (metis hd_dropWhile last_rev rev_is_Nil_conv)

lemma init_Inr:
  "init cfg = Inr self \<Longrightarrow>
     \<exists>u. cfg ''server_url'' = Some u \<and> u \<noteq> [] \<and>
       self = \<lparr>config = cfg, server_url = Some u, model = cfg ''model'',
               api_key = cfg ''api_key''\<rparr>"
  by (cases "cfg ''server_url''") (auto simp: init_def LLMProvider_init_def Let_def split: if_splits)

lemma generate_posts:
  "server_url self = Some base \<Longrightarrow>
   posts (generate e self prompt response_schema) =
     [\<lparr>http_method = ''POST'', url = rstrip base ''/'' @ ''/generate'',
       json = (case model self of
                 None \<Rightarrow> [''prompt'' \<mapsto> prompt]
               | Some m \<Rightarrow> if m \<noteq> [] then [''prompt'' \<mapsto> prompt, ''model'' \<mapsto> m]
                           else [''prompt'' \<mapsto> prompt]),
       headers = provider_headers self, timeout = 60\<rparr>]"
  by (simp add: generate_def Let_def split: sum.splits option.splits)

lemma generate_self_after: "self_after (generate e self prompt response_schema) = self"
  by (simp add: generate_def Let_def split: sum.splits option.splits)


lemma rstrip_no_trailing: "rstrip s [c] \<noteq> v @ [c]"
  using rstrip_last [of s "[c]"] by (cases "rstrip s [c] = []") auto

lemma init_local: "init local_config = Inr local_provider"
  by (simp add: init_def LLMProvider_init_def local_config_def local_provider_def Let_def)

lemma init_keyed: "init keyed_config = Inr keyed_provider"
  by (simp add: init_def LLMProvider_init_def keyed_config_def keyed_provider_def Let_def)

lemma generate_posts_Nil:
  "server_url self = None \<Longrightarrow> posts (generate e self prompt response_schema) = []"
  by (simp add: generate_def)

lemma generate_after_post:
  assumes "posts (generate e self prompt response_schema) = [req]"
    and "post e req = Inr resp"
  shows "generate e self prompt response_schema =
     (case raise_for_status resp of
        Inl ex \<Rightarrow>
          \<lparr>self_after = self, posts = [req],
           logged = [LogException ''LM Studio request failed: %s'' ex], result = Inl ex\<rparr>
      | Inr _ \<Rightarrow>
          \<lparr>self_after = self, posts = [req], logged = [],
           result =
             (if truthy_dict response_schema
              then (case json_loads e (resp_text resp) of
                      Inr v \<Rightarrow> Inr v
                    | Inl ex \<Rightarrow>
                        Inl (ValueError ''Failed to parse JSON response from LM Studio'' (Some ex)))
              else Inr (JStr (resp_text resp)))\<rparr>)"
proof (cases "server_url self")
  case None
  with assms(1) show ?thesis by (simp add: generate_posts_Nil)
next
  case (Some base)
  from assms(1) have req: "req = \<lparr>http_method = ''POST'', url = rstrip base ''/'' @ ''/generate'',
       json = (case model self of
                 None \<Rightarrow> [''prompt'' \<mapsto> prompt]
               | Some m \<Rightarrow> if m \<noteq> [] then [''prompt'' \<mapsto> prompt, ''model'' \<mapsto> m]
                           else [''prompt'' \<mapsto> prompt]),
       headers = provider_headers self, timeout = 60\<rparr>"
    by (simp add: generate_posts [OF Some])
  show ?thesis
    using assms(2) Some unfolding req generate_def
    by (cases "model self") (simp_all add: Let_def split: sum.splits)
qed

lemma posts_local:
  "posts (generate e local_provider ''hi'' response_schema) = [local_request]"
  by (simp add: generate_posts [of _ "''http://localhost:1234/''"] local_provider_def
      local_request_def rstrip_def provider_headers_def)

lemma posts_keyed:
  "posts (generate e keyed_provider ''hi'' response_schema) = [keyed_request]"
  by (simp add: generate_posts [of _ "''http://localhost:1234''"] keyed_provider_def
      keyed_request_def rstrip_def provider_headers_def)

lemma init_blank: "init blank_config = Inr blank_provider"
  by (simp add: init_def LLMProvider_init_def blank_config_def blank_provider_def Let_def)

lemma posts_blank:
  "posts (generate e blank_provider ''hi'' response_schema) = [local_request]"
  by (simp add: generate_posts [of _ "''http://localhost:1234/''"] blank_provider_def
      local_request_def rstrip_def provider_headers_def)

lemma post_simulated: "post (simulated_server r loads) req = Inr r"
  by (simp add: simulated_server_def)

lemma json_loads_simulated: "json_loads (simulated_server r loads) = loads"
  by (simp add: simulated_server_def)

subsection \<open>Construction\<close>

text \<open>
  C1.  A configuration in which \<^verbatim>\<open>server_url\<close> is absent or the empty string is refused:
  the constructor raises its configuration error, the \<^verbatim>\<open>ValueError\<close> of line 41.  A
  configuration with a non-empty \<^verbatim>\<open>server_url\<close> is accepted, and the object holds the
  configuration's \<^verbatim>\<open>server_url\<close>, \<^verbatim>\<open>model\<close> and \<^verbatim>\<open>api_key\<close>.
\<close>

theorem init_server_url:
  "(cfg ''server_url'' = None \<or> cfg ''server_url'' = Some [] \<longrightarrow>
      init cfg = Inl (ValueError ''LMStudio provider requires 'server_url' in config'' None))
   \<and> (\<forall>u. cfg ''server_url'' = Some u \<and> u \<noteq> [] \<longrightarrow>
      init cfg = Inr \<lparr>config = cfg, server_url = Some u, model = cfg ''model'',
                      api_key = cfg ''api_key''\<rparr>)"
  by (auto simp: init_def LLMProvider_init_def Let_def)

theorem init_server_url_witness:
  "init Map.empty = Inl (ValueError ''LMStudio provider requires 'server_url' in config'' None)
   \<and> init [''server_url'' \<mapsto> ''''] =
       Inl (ValueError ''LMStudio provider requires 'server_url' in config'' None)
   \<and> init [''server_url'' \<mapsto> ''http://localhost:1234/'', ''model'' \<mapsto> ''m1''] =
       Inr \<lparr>config = [''server_url'' \<mapsto> ''http://localhost:1234/'', ''model'' \<mapsto> ''m1''],
            server_url = Some ''http://localhost:1234/'', model = Some ''m1'', api_key = None\<rparr>"
  using init_server_url [of Map.empty] init_server_url [of "[''server_url'' \<mapsto> '''']"]
    init_server_url [of "[''server_url'' \<mapsto> ''http://localhost:1234/'', ''model'' \<mapsto> ''m1'']"]
  by simp

subsection \<open>The status of the response\<close>

text \<open>
  C2, as the claim states it, at a response with status 304: the status is not in the 2xx
  range, and yet \<^verbatim>\<open>generate\<close> returns the body and logs nothing.
\<close>

theorem generate_status_304_counterexample:
  "\<not> (200 \<le> (304::int) \<and> (304::int) < 300)
   \<and> result (generate (simulated_server \<lparr>status_code = 304, resp_text = ''hello''\<rparr> loads_a1)
         local_provider ''hi'' None) = Inr (JStr ''hello'')
   \<and> logged (generate (simulated_server \<lparr>status_code = 304, resp_text = ''hello''\<rparr> loads_a1)
         local_provider ''hi'' None) = []"
  by (simp add: generate_def simulated_server_def local_provider_def raise_for_status_def Let_def)

text \<open>
  C2, amended.  For every response that \<^verbatim>\<open>generate\<close> receives, the call raises the
  transport error (the \<^verbatim>\<open>HTTPError\<close> of \<^verbatim>\<open>raise_for_status\<close>, re-raised after one log
  entry for it) if and only if the status code is a client or server error, from 400 to
  599.  Every other status, every 2xx status among them, is treated as success: nothing
  is logged and the body is interpreted.
\<close>

theorem generate_raises_for_status:
  assumes "posts (generate e self prompt response_schema) = [req]"
    and "post e req = Inr resp"
  shows "((\<exists>c. result (generate e self prompt response_schema) = Inl (HTTPError c))
            \<longleftrightarrow> 400 \<le> status_code resp \<and> status_code resp < 600)
     \<and> (400 \<le> status_code resp \<and> status_code resp < 600 \<longrightarrow>
          result (generate e self prompt response_schema) = Inl (HTTPError (status_code resp))
          \<and> logged (generate e self prompt response_schema) =
              [LogException ''LM Studio request failed: %s'' (HTTPError (status_code resp))])
     \<and> (\<not> (400 \<le> status_code resp \<and> status_code resp < 600) \<longrightarrow>
          logged (generate e self prompt response_schema) = []
          \<and> result (generate e self prompt response_schema) =
              (if truthy_dict response_schema
               then (case json_loads e (resp_text resp) of
                       Inr v \<Rightarrow> Inr v
                     | Inl ex \<Rightarrow>
                         Inl (ValueError ''Failed to parse JSON response from LM Studio'' (Some ex)))
               else Inr (JStr (resp_text resp))))"
  unfolding generate_after_post [OF assms]
  by (auto simp: raise_for_status_def split: sum.splits)

theorem generate_raises_for_status_witness:
  "posts (generate (simulated_server \<lparr>status_code = 500, resp_text = ''oops''\<rparr> loads_a1)
       local_provider ''hi'' None) = [local_request]
   \<and> post (simulated_server \<lparr>status_code = 500, resp_text = ''oops''\<rparr> loads_a1) local_request =
       Inr \<lparr>status_code = 500, resp_text = ''oops''\<rparr>
   \<and> result (generate (simulated_server \<lparr>status_code = 500, resp_text = ''oops''\<rparr> loads_a1)
       local_provider ''hi'' None) = Inl (HTTPError 500)
   \<and> logged (generate (simulated_server \<lparr>status_code = 500, resp_text = ''oops''\<rparr> loads_a1)
       local_provider ''hi'' None) = [LogException ''LM Studio request failed: %s'' (HTTPError 500)]
   \<and> posts (generate (simulated_server \<lparr>status_code = 200, resp_text = ''hello''\<rparr> loads_a1)
       local_provider ''hi'' None) = [local_request]
   \<and> post (simulated_server \<lparr>status_code = 200, resp_text = ''hello''\<rparr> loads_a1) local_request =
       Inr \<lparr>status_code = 200, resp_text = ''hello''\<rparr>
   \<and> result (generate (simulated_server \<lparr>status_code = 200, resp_text = ''hello''\<rparr> loads_a1)
       local_provider ''hi'' None) = Inr (JStr ''hello'')
   \<and> logged (generate (simulated_server \<lparr>status_code = 200, resp_text = ''hello''\<rparr> loads_a1)
       local_provider ''hi'' None) = []"
  using generate_raises_for_status [OF posts_local post_simulated,
      of "\<lparr>status_code = 500, resp_text = ''oops''\<rparr>" loads_a1 None]
    generate_raises_for_status [OF posts_local post_simulated,
      of "\<lparr>status_code = 200, resp_text = ''hello''\<rparr>" loads_a1 None]
  by (simp add: posts_local post_simulated)

subsection \<open>The body of the response\<close>

text \<open>
  C3, as the claim states it, at the schema \<^verbatim>\<open>{}\<close>: the argument is not \<^verbatim>\<open>None\<close>, the
  response has status 200 and a body that the parser accepts, and yet \<^verbatim>\<open>generate\<close>
  returns the body as text and not the parsed value.
\<close>

theorem generate_empty_schema_counterexample:
  "Some [] \<noteq> (None :: (string \<times> json_value) list option)
   \<and> loads_a1 body_a1 = Inr (JDict [(''a'', JInt 1)])
   \<and> result (generate (simulated_server \<lparr>status_code = 200, resp_text = body_a1\<rparr> loads_a1)
         local_provider ''hi'' (Some [])) = Inr (JStr body_a1)
   \<and> result (generate (simulated_server \<lparr>status_code = 200, resp_text = body_a1\<rparr> loads_a1)
         local_provider ''hi'' (Some [])) \<noteq> Inr (JDict [(''a'', JInt 1)])"
  by (simp add: generate_def simulated_server_def local_provider_def raise_for_status_def Let_def
      loads_a1_def)

text \<open>
  C3, amended.  For every call with a non-empty \<^verbatim>\<open>response_schema\<close> and a 2xx response,
  the body is parsed as JSON and the parsed value is returned; if the parser rejects the
  body, \<^verbatim>\<open>generate\<close> raises its decoding error, the \<^verbatim>\<open>ValueError\<close> of line 72, whose
  cause is the parser's exception.
\<close>

theorem generate_with_schema:
  assumes "posts (generate e self prompt (Some schema)) = [req]"
    and "post e req = Inr resp"
    and "200 \<le> status_code resp \<and> status_code resp < 300"
    and "schema \<noteq> []"
  shows "(\<forall>v. json_loads e (resp_text resp) = Inr v \<longrightarrow>
            result (generate e self prompt (Some schema)) = Inr v)
     \<and> (\<forall>ex. json_loads e (resp_text resp) = Inl ex \<longrightarrow>
            result (generate e self prompt (Some schema)) =
              Inl (ValueError ''Failed to parse JSON response from LM Studio'' (Some ex)))"
  unfolding generate_after_post [OF assms(1,2)]
  using assms(3,4) by (simp add: raise_for_status_def)

theorem generate_with_schema_witness:
  "posts (generate (simulated_server \<lparr>status_code = 200, resp_text = body_a1\<rparr> loads_a1)
       local_provider ''hi'' (Some [(''type'', JStr ''object'')])) = [local_request]
   \<and> post (simulated_server \<lparr>status_code = 200, resp_text = body_a1\<rparr> loads_a1) local_request =
       Inr \<lparr>status_code = 200, resp_text = body_a1\<rparr>
   \<and> [(''type'', JStr ''object'')] \<noteq> []
   \<and> loads_a1 body_a1 = Inr (JDict [(''a'', JInt 1)])
   \<and> result (generate (simulated_server \<lparr>status_code = 200, resp_text = body_a1\<rparr> loads_a1)
       local_provider ''hi'' (Some [(''type'', JStr ''object'')])) = Inr (JDict [(''a'', JInt 1)])
   \<and> posts (generate (simulated_server \<lparr>status_code = 200, resp_text = ''not json''\<rparr> loads_a1)
       local_provider ''hi'' (Some [(''type'', JStr ''object'')])) = [local_request]
   \<and> post (simulated_server \<lparr>status_code = 200, resp_text = ''not json''\<rparr> loads_a1)
       local_request = Inr \<lparr>status_code = 200, resp_text = ''not json''\<rparr>
   \<and> loads_a1 ''not json'' = Inl (JSONDecodeError ''Expecting value'')
   \<and> result (generate (simulated_server \<lparr>status_code = 200, resp_text = ''not json''\<rparr> loads_a1)
       local_provider ''hi'' (Some [(''type'', JStr ''object'')])) =
       Inl (ValueError ''Failed to parse JSON response from LM Studio''
             (Some (JSONDecodeError ''Expecting value'')))"
  using generate_with_schema [OF posts_local post_simulated,
      of "\<lparr>status_code = 200, resp_text = body_a1\<rparr>" "[(''type'', JStr ''object'')]" loads_a1]
    generate_with_schema [OF posts_local post_simulated,
      of "\<lparr>status_code = 200, resp_text = ''not json''\<rparr>" "[(''type'', JStr ''object'')]" loads_a1]
  by (simp add: posts_local post_simulated json_loads_simulated loads_a1_def body_a1_def)

text \<open>
  C4.  For every call without a \<^verbatim>\<open>response_schema\<close> and with a 2xx response,
  \<^verbatim>\<open>generate\<close> returns the text of the body as it is: the parser has no part in the
  result and no character is taken off.
\<close>

theorem generate_without_schema:
  assumes "posts (generate e self prompt None) = [req]"
    and "post e req = Inr resp"
    and "200 \<le> status_code resp \<and> status_code resp < 300"
  shows "result (generate e self prompt None) = Inr (JStr (resp_text resp))"
  unfolding generate_after_post [OF assms(1,2)]
  using assms(3) by (simp add: raise_for_status_def)

theorem generate_without_schema_witness:
  "posts (generate (simulated_server \<lparr>status_code = 200, resp_text = ''hello''\<rparr> loads_a1)
       local_provider ''hi'' None) = [local_request]
   \<and> post (simulated_server \<lparr>status_code = 200, resp_text = ''hello''\<rparr> loads_a1) local_request =
       Inr \<lparr>status_code = 200, resp_text = ''hello''\<rparr>
   \<and> result (generate (simulated_server \<lparr>status_code = 200, resp_text = ''hello''\<rparr> loads_a1)
       local_provider ''hi'' None) = Inr (JStr ''hello'')"
  using generate_without_schema [OF posts_local post_simulated,
      of "\<lparr>status_code = 200, resp_text = ''hello''\<rparr>" loads_a1]
  by (simp add: posts_local post_simulated)

subsection \<open>The request\<close>

text \<open>
  C5.  For every object the constructor accepts and every prompt, a call of \<^verbatim>\<open>generate\<close>
  hands exactly one request to \<^verbatim>\<open>requests.post\<close>.  Its URL is the configured
  \<^verbatim>\<open>server_url\<close> without its trailing slashes, followed by \<^verbatim>\<open>/generate\<close>: what is taken
  off the configured URL is a run of slashes, and what is left does not end with a
  slash.  Its headers hold \<^verbatim>\<open>Content-Type: application/json\<close>.
\<close>

theorem generate_one_post:
  assumes "init cfg = Inr self" and "cfg ''server_url'' = Some u"
  shows "(\<exists>req. posts (generate e self prompt response_schema) = [req]
            \<and> http_method req = ''POST''
            \<and> url req = rstrip u ''/'' @ ''/generate''
            \<and> headers req ''Content-Type'' = Some ''application/json'')
     \<and> u = rstrip u ''/'' @ replicate (length u - length (rstrip u ''/'')) CHR ''/''
     \<and> (\<forall>v. rstrip u ''/'' \<noteq> v @ ''/'')"
proof -
  from init_Inr [OF assms(1)] assms(2) have "server_url self = Some u"
    by auto
  then show ?thesis
    using rstrip_split [of u "CHR ''/''"] rstrip_no_trailing [of u "CHR ''/''"]
    by (simp add: generate_posts provider_headers_def Let_def split: option.splits)
qed

theorem generate_one_post_witness:
  "init local_config = Inr local_provider
   \<and> local_config ''server_url'' = Some ''http://localhost:1234/''
   \<and> posts (generate hello_server local_provider ''hi'' None) = [local_request]
   \<and> http_method local_request = ''POST''
   \<and> url local_request = ''http://localhost:1234/generate''
   \<and> headers local_request ''Content-Type'' = Some ''application/json''"
proof -
  have u: "local_config ''server_url'' = Some ''http://localhost:1234/''"
    by (simp add: local_config_def)
  have r: "rstrip ''http://localhost:1234/'' ''/'' = ''http://localhost:1234''"
    by (simp add: rstrip_def)
  show ?thesis
    using generate_one_post [OF init_local u, of hello_server "''hi''" None]
    by (simp add: init_local u r posts_local)
qed

text \<open>
  C6, as the claim states it, at a configuration whose \<^verbatim>\<open>api_key\<close> is the empty string:
  the key is configured, the constructor accepts the configuration, and yet the request
  has no \<^verbatim>\<open>Authorization\<close> header, where the claim has the header \<^verbatim>\<open>Bearer\<close>, a space and
  the key.
\<close>

theorem generate_authorization_counterexample:
  "init blank_config = Inr blank_provider
   \<and> blank_config ''api_key'' = Some []
   \<and> posts (generate hello_server blank_provider ''hi'' None) = [local_request]
   \<and> headers local_request ''Authorization'' = None
   \<and> headers local_request ''Authorization'' \<noteq> Some (''Bearer '' @ [])"
  by (simp add: init_blank posts_blank) (simp add: blank_config_def local_request_def)

text \<open>
  C6, amended.  The request carries the header \<^verbatim>\<open>Authorization\<close> with the value \<^verbatim>\<open>Bearer\<close>,
  a space and the configured \<^verbatim>\<open>api_key\<close> when a non-empty key is configured, and no
  \<^verbatim>\<open>Authorization\<close> header when the configuration has no \<^verbatim>\<open>api_key\<close>.
\<close>

theorem generate_authorization:
  assumes "init cfg = Inr self"
    and "posts (generate e self prompt response_schema) = [req]"
  shows "(\<forall>k. cfg ''api_key'' = Some k \<and> k \<noteq> [] \<longrightarrow>
            headers req ''Authorization'' = Some (''Bearer '' @ k))
     \<and> (cfg ''api_key'' = None \<longrightarrow> headers req ''Authorization'' = None)"
proof -
  from init_Inr [OF assms(1)] obtain u where
    self: "self = \<lparr>config = cfg, server_url = Some u, model = cfg ''model'',
                   api_key = cfg ''api_key''\<rparr>"
    by blast
  then have "server_url self = Some u" by simp
  from assms(2) [unfolded generate_posts [OF this]] show ?thesis
    by (auto simp: self provider_headers_def)
qed

theorem generate_authorization_witness:
  "init keyed_config = Inr keyed_provider
   \<and> posts (generate hello_server keyed_provider ''hi'' None) = [keyed_request]
   \<and> keyed_config ''api_key'' = Some ''secret''
   \<and> headers keyed_request ''Authorization'' = Some ''Bearer secret''
   \<and> init local_config = Inr local_provider
   \<and> posts (generate hello_server local_provider ''hi'' None) = [local_request]
   \<and> local_config ''api_key'' = None
   \<and> headers local_request ''Authorization'' = None"
  using generate_authorization [OF init_keyed posts_keyed [of hello_server None]]
    generate_authorization [OF init_local posts_local [of hello_server None]]
  by (simp add: init_keyed init_local posts_keyed posts_local)
    (simp add: keyed_config_def local_config_def keyed_request_def local_request_def)

text \<open>
  C7, as the claim states it, at a configuration whose \<^verbatim>\<open>model\<close> is the empty string: the
  model is configured, the constructor accepts the configuration, and yet the body of
  the request has no field \<^verbatim>\<open>model\<close>, where the claim has the field with the configured
  model.
\<close>

theorem generate_model_field_counterexample:
  "init blank_config = Inr blank_provider
   \<and> blank_config ''model'' = Some []
   \<and> posts (generate hello_server blank_provider ''hi'' None) = [local_request]
   \<and> json local_request ''model'' = None
   \<and> json local_request ''model'' \<noteq> Some []"
  by (simp add: init_blank posts_blank) (simp add: blank_config_def local_request_def)

text \<open>
  C7, amended.  The JSON body of the request holds the field \<^verbatim>\<open>model\<close> with the configured
  model (beside the prompt) when a non-empty model is configured, and only the field
  \<^verbatim>\<open>prompt\<close> when the configuration has no \<^verbatim>\<open>model\<close>.
\<close>

theorem generate_model_field:
  assumes "init cfg = Inr self"
    and "posts (generate e self prompt response_schema) = [req]"
  shows "(\<forall>m. cfg ''model'' = Some m \<and> m \<noteq> [] \<longrightarrow>
            json req = [''prompt'' \<mapsto> prompt, ''model'' \<mapsto> m])
     \<and> (cfg ''model'' = None \<longrightarrow> json req = [''prompt'' \<mapsto> prompt])"
proof -
  from init_Inr [OF assms(1)] obtain u where
    self: "self = \<lparr>config = cfg, server_url = Some u, model = cfg ''model'',
                   api_key = cfg ''api_key''\<rparr>"
    by blast
  then have "server_url self = Some u" by simp
  from assms(2) [unfolded generate_posts [OF this]] show ?thesis
    by (auto simp: self)
qed

theorem generate_model_field_witness:
  "init keyed_config = Inr keyed_provider
   \<and> posts (generate hello_server keyed_provider ''hi'' None) = [keyed_request]
   \<and> keyed_config ''model'' = Some ''m1''
   \<and> json keyed_request = [''prompt'' \<mapsto> ''hi'', ''model'' \<mapsto> ''m1'']
   \<and> json keyed_request ''model'' = Some ''m1''
   \<and> init local_config = Inr local_provider
   \<and> posts (generate hello_server local_provider ''hi'' None) = [local_request]
   \<and> local_config ''model'' = None
   \<and> json local_request = [''prompt'' \<mapsto> ''hi'']
   \<and> dom (json local_request) = {''prompt''}"
  using generate_model_field [OF init_keyed posts_keyed [of hello_server None]]
    generate_model_field [OF init_local posts_local [of hello_server None]]
  by (simp add: init_keyed init_local posts_keyed posts_local)
    (simp add: keyed_config_def local_config_def keyed_request_def local_request_def)

subsection \<open>Registration\<close>

text \<open>
  C8.  Whatever the registry's \<^verbatim>\<open>register_provider\<close> does when the module is loaded,
  return or raise, the statement that calls it ends normally: the exception is
  swallowed, and the registry is as the call left it.
\<close>

theorem register_on_import_completes:
  "fst (register_on_import register_provider registry) = Completed
   \<and> snd (register_on_import register_provider registry) = snd (register_provider NAME registry)"
  by (simp add: register_on_import_def split: prod.splits option.splits)

subsection \<open>The object is not written\<close>

text \<open>
  C9.  A call of \<^verbatim>\<open>generate\<close> leaves the object as it was, \<^verbatim>\<open>server_url\<close>, \<^verbatim>\<open>model\<close> and
  \<^verbatim>\<open>api_key\<close> included.  So after any sequence of calls the object is the one the
  sequence started with, and each call of the sequence does what it would have done as
  the first call on that object.
\<close>

theorem generate_writes_nothing:
  "self_after (generate e self prompt response_schema) = self
   \<and> generate_all self calls =
       (self, map (\<lambda>(e, prompt, response_schema). generate e self prompt response_schema) calls)"
proof
  show "self_after (generate e self prompt response_schema) = self"
    by (rule generate_self_after)
  show "generate_all self calls =
       (self, map (\<lambda>(e, prompt, response_schema). generate e self prompt response_schema) calls)"
    by (induction calls) (auto simp: generate_self_after Let_def)
qed

subsection \<open>Empty values\<close>

text \<open>
  C10.  An empty string counts as an absent value: when the configured \<^verbatim>\<open>api_key\<close> is the
  empty string the request has no \<^verbatim>\<open>Authorization\<close> header (its headers are the
  \<^verbatim>\<open>Content-Type\<close> alone), and when the configured \<^verbatim>\<open>model\<close> is the empty string the body
  has no field \<^verbatim>\<open>model\<close> (it is the prompt alone).
\<close>

theorem empty_values_as_absent:
  assumes "init cfg = Inr self"
    and "posts (generate e self prompt response_schema) = [req]"
  shows "(cfg ''api_key'' = Some [] \<longrightarrow>
            headers req ''Authorization'' = None
            \<and> headers req = [''Content-Type'' \<mapsto> ''application/json''])
     \<and> (cfg ''model'' = Some [] \<longrightarrow>
            json req ''model'' = None \<and> json req = [''prompt'' \<mapsto> prompt])"
proof -
  from init_Inr [OF assms(1)] obtain u where
    self: "self = \<lparr>config = cfg, server_url = Some u, model = cfg ''model'',
                   api_key = cfg ''api_key''\<rparr>"
    by blast
  then have "server_url self = Some u" by simp
  from assms(2) [unfolded generate_posts [OF this]] show ?thesis
    by (auto simp: self provider_headers_def)
qed

theorem empty_values_as_absent_witness:
  "init blank_config = Inr blank_provider
   \<and> posts (generate hello_server blank_provider ''hi'' None) = [local_request]
   \<and> blank_config ''api_key'' = Some []
   \<and> blank_config ''model'' = Some []
   \<and> headers local_request ''Authorization'' = None
   \<and> headers local_request = [''Content-Type'' \<mapsto> ''application/json'']
   \<and> json local_request ''model'' = None
   \<and> json local_request = [''prompt'' \<mapsto> ''hi'']"
  using empty_values_as_absent [OF init_blank posts_blank [of hello_server None]]
  by (simp add: init_blank posts_blank)
    (simp add: blank_config_def local_request_def)

end
